theory Spec2Isabelle
  imports Main
begin

section \<open>JavaScript string primitives used by the engine\<close>

text \<open>
  Strings are character lists. An index read \<open>s[i]\<close> outside the string gives
  \<open>undefined\<close> in JavaScript, which is \<open>None\<close> here.
\<close>

definition dquote :: char where
  "dquote = CHR 0x22"

definition char_at :: "string \<Rightarrow> int \<Rightarrow> char option" where
  "char_at s i = (if 0 \<le> i \<and> i < int (length s) then Some (s ! nat i) else None)"

text \<open>
  \<open>String.prototype.substring(a, b)\<close>: both bounds are clamped to the string and
  swapped when the first is the larger one.
\<close>

definition substring :: "string \<Rightarrow> int \<Rightarrow> int \<Rightarrow> string" where
  "substring s a b =
     (let len = int (length s);
          a' = min (max a 0) len;
          b' = min (max b 0) len;
          lo = min a' b';
          hi = max a' b'
      in take (nat (hi - lo)) (drop (nat lo) s))"

text \<open>
  \<open>toLowerCase\<close> on the ASCII letters, and \<open>parseInt(s, 10)\<close>: leading white space, an
  optional sign, then the longest run of decimal digits; \<open>None\<close> is \<open>NaN\<close>.
\<close>

definition lower_char :: "char \<Rightarrow> char" where
  "lower_char c =
     (let n = (of_char c :: nat) in if 65 \<le> n \<and> n \<le> 90 then char_of (n + 32) else c)"

definition toLowerCase :: "string \<Rightarrow> string" where
  "toLowerCase s = map lower_char s"

definition is_space :: "char \<Rightarrow> bool" where
  "is_space c = ((of_char c :: nat) \<in> {9, 10, 11, 12, 13, 32})"

definition is_digit :: "char \<Rightarrow> bool" where
  "is_digit c = (let n = (of_char c :: nat) in 48 \<le> n \<and> n \<le> 57)"

definition digits_value :: "string \<Rightarrow> int" where
  "digits_value ds = foldl (\<lambda>a c. 10 * a + (int (of_char c) - 48)) 0 ds"

definition parseInt10 :: "string \<Rightarrow> int option" where
  "parseInt10 s =
     (let t = dropWhile is_space s;
          neg = (t \<noteq> [] \<and> hd t = CHR ''-'');
          u = (if t \<noteq> [] \<and> (hd t = CHR ''-'' \<or> hd t = CHR ''+'') then tl t else t);
          ds = takeWhile is_digit u
      in if ds = [] then None
         else Some (if neg then - digits_value ds else digits_value ds))"

text \<open>\<open>a.indexOf(b) === 0\<close>: \<open>b\<close> is a prefix of \<open>a\<close>.\<close>

definition starts_with :: "string \<Rightarrow> string \<Rightarrow> bool" where
  "starts_with a b = (take (length b) a = b)"

section \<open>Command manager: parameter handling\<close>

text \<open>
  \<open>stripEncapsulation(param)\<close> of \<open>command/manager.js\<close>: two independent tests, the
  second one on the result of the first.
\<close>

definition stripEncapsulation :: "string \<Rightarrow> string" where
  "stripEncapsulation param =
     (let p1 = (if char_at param 0 = Some dquote
                then substring param 1 (int (length param) - 1)
                else param)
      in if char_at p1 (int (length p1) - 1) = Some dquote
         then substring p1 0 (int (length p1) - 2)
         else p1)"

section \<open>JavaScript array primitives\<close>

text \<open>
  \<open>xs[i]\<close> is \<open>undefined\<close> outside the array; \<open>findIndex\<close> answers \<open>-1\<close> when no
  element satisfies the test; \<open>splice(i, 1)\<close> counts a negative start from the end and
  clamps it to the array.
\<close>

definition array_get :: "'a list \<Rightarrow> int \<Rightarrow> 'a option" where
  "array_get xs i = (if 0 \<le> i \<and> i < int (length xs) then Some (xs ! nat i) else None)"

fun findIndex :: "('a \<Rightarrow> bool) \<Rightarrow> 'a list \<Rightarrow> int" where
  "findIndex P [] = - 1"
| "findIndex P (x # xs) =
     (if P x then 0 else (let i = findIndex P xs in if i = - 1 then - 1 else i + 1))"

definition splice_start :: "'a list \<Rightarrow> int \<Rightarrow> nat" where
  "splice_start xs i =
     (let len = int (length xs) in nat (if i < 0 then max (len + i) 0 else min i len))"

definition splice1 :: "'a list \<Rightarrow> int \<Rightarrow> 'a list" where
  "splice1 xs i = take (splice_start xs i) xs @ drop (Suc (splice_start xs i)) xs"

definition spliced :: "'a list \<Rightarrow> int \<Rightarrow> 'a option" where
  "spliced xs i = array_get xs (int (splice_start xs i))"

text \<open>Truthiness of a number that may be \<open>null\<close>, and of a string that may be \<open>null\<close>.\<close>

fun truthy_num :: "int option \<Rightarrow> bool" where
  "truthy_num None = False"
| "truthy_num (Some n) = (n \<noteq> 0)"

fun truthy_str :: "string option \<Rightarrow> bool" where
  "truthy_str None = False"
| "truthy_str (Some s) = (s \<noteq> [])"

text \<open>A call that ends in a \<open>TypeError\<close> instead of returning.\<close>

datatype 'a js_result = Threw | Returned 'a

section \<open>Cooldowns\<close>

text \<open>
  Modelled from the spec: the \<open>Cooldown\<close> class (\<open>cooldown/object.js\<close>) is not among the
  sources. The spec gives a cooldown as "(action key, remaining ticks, started flag)";
  \<open>remove\<close> is the flag that \<open>cleanup\<close> reads, \<open>start()\<close> sets the started flag.
\<close>

record cooldown =
  action :: string
  ticks :: int
  started :: bool
  remove :: bool

definition new_Cooldown :: "string \<Rightarrow> int \<Rightarrow> bool \<Rightarrow> cooldown" where
  "new_Cooldown a d autostart = \<lparr>action = a, ticks = d, started = autostart, remove = False\<rparr>"

definition start :: "cooldown \<Rightarrow> cooldown" where
  "start cd = cd\<lparr>started := True\<rparr>"

section \<open>Items and characters\<close>

text \<open>
  The item class is not among the sources; the record holds the properties that the
  character code reads and writes. \<open>equipped_slot\<close> and \<open>slot\<close> are two different
  properties in the source: \<open>equip\<close>, \<open>unEquip\<close> and \<open>getEquippedSync\<close> use the first,
  \<open>dropItem\<close> reads the second. \<open>durability\<close> and \<open>stats.durability\<close> are different
  properties as well. A property that is \<open>null\<close>, deleted or absent is \<open>None\<close>.
\<close>

record item_stats =
  stackable :: bool
  equipable :: bool
  stat_durability :: int
  damage_reduction :: int

record item =
  item_id :: string
  item_name :: string
  subtype :: string
  equipped_slot :: "string option"
  slot :: "string option"
  durability :: int
  istats :: item_stats

text \<open>
  Modelled from the spec: the item methods \<open>addDurability\<close>, \<open>setDurability\<close> and
  \<open>removeDurability\<close> belong to the absent item class; they change the quantity of the
  instance ("partial removal decrements quantity").
\<close>

definition addDurability :: "item \<Rightarrow> int \<Rightarrow> item" where
  "addDurability it n = it\<lparr>durability := durability it + n\<rparr>"

definition setDurability :: "item \<Rightarrow> int \<Rightarrow> item" where
  "setDurability it n = it\<lparr>durability := n\<rparr>"

definition removeDurability :: "item \<Rightarrow> int \<Rightarrow> item" where
  "removeDurability it n = it\<lparr>durability := durability it - n\<rparr>"

record location =
  loc_map :: string
  loc_x :: int
  loc_y :: int

record stats =
  health :: int
  health_max :: int
  money :: int
  bank :: int
  exp :: int
  inventorySize :: int

text \<open>
  Characters are shared objects: \<open>target\<close> and \<open>targetedBy\<close> hold references to other
  character objects. A reference is an address into a store of characters; every
  reference denotes an object, as in the source.
\<close>

type_synonym ref = nat

record character =
  user_id :: string
  char_name :: string
  location :: location
  stats :: stats
  inventory :: "item list"
  cooldowns :: "cooldown list"
  target :: "ref option"
  targetedBy :: "ref list"
  hidden :: bool

type_synonym store = "ref \<Rightarrow> character"

section \<open>Cooldown manager\<close>

text \<open>
  \<open>add(character, action, duraction, autostart)\<close>. The configured defaults
  \<open>Game.config.game.playerCooldowns\<close> are a parameter. The result is the character with
  the new cooldown pushed and the cooldown itself, or \<open>undefined\<close>.
\<close>

definition add ::
  "(string \<Rightarrow> int option) \<Rightarrow> character \<Rightarrow> string \<Rightarrow> int option \<Rightarrow> bool
     \<Rightarrow> character \<times> cooldown option" where
  "add playerCooldowns c act duraction autostart =
     (let d = (if truthy_num duraction then duraction
               else if truthy_num (playerCooldowns act) then playerCooldowns act
               else duraction)
      in if \<not> truthy_num d then (c, None)
         else (let newCooldown = new_Cooldown act (the d) autostart
               in (c\<lparr>cooldowns := cooldowns c @ [newCooldown]\<rparr>, Some newCooldown)))"

definition ticksLeft :: "character \<Rightarrow> string \<Rightarrow> int" where
  "ticksLeft c act =
     (case find (\<lambda>cd. action cd = act \<and> ticks cd > 0) (cooldowns c) of
        None \<Rightarrow> 0
      | Some cd \<Rightarrow> (if ticks cd \<noteq> 0 then max 0 (ticks cd) else 0))"

definition cleanup :: "character \<Rightarrow> character" where
  "cleanup c = c\<lparr>cooldowns := filter (\<lambda>obj. remove obj) (cooldowns c)\<rparr>"

section \<open>Character: targeting\<close>

text \<open>
  \<open>gridLock(character)\<close> and \<open>gridRelease(user_id)\<close> run on the object \<open>this\<close> and
  compare the \<open>user_id\<close> of the referenced characters, not the references.
\<close>

definition gridLock :: "store \<Rightarrow> ref \<Rightarrow> ref \<Rightarrow> store" where
  "gridLock h this c =
     (if findIndex (\<lambda>obj. user_id (h obj) = user_id (h c)) (targetedBy (h this)) = - 1
      then h(this := (h this)\<lparr>targetedBy := targetedBy (h this) @ [c]\<rparr>)
      else h)"

definition gridRelease :: "store \<Rightarrow> ref \<Rightarrow> string \<Rightarrow> store" where
  "gridRelease h this uid =
     (let playerIndex = findIndex (\<lambda>obj. user_id (h obj) = uid) (targetedBy (h this))
      in if playerIndex = - 1 then h
         else h(this := (h this)\<lparr>targetedBy := splice1 (targetedBy (h this)) playerIndex\<rparr>))"

definition releaseTarget :: "store \<Rightarrow> ref \<Rightarrow> store" where
  "releaseTarget h this =
     (let h1 = (case target (h this) of
                  Some t \<Rightarrow> gridRelease h t (user_id (h this))
                | None \<Rightarrow> h)
      in h1(this := (h1 this)\<lparr>target := None\<rparr>))"

text \<open>
  \<open>setTarget(target)\<close>: the release runs at the call, the assignment and the gridlock in
  the \<open>then\<close> callback of the promise that \<open>releaseTarget\<close> returns. \<open>setTarget_then\<close> is
  that callback; \<open>setTarget\<close> is the call together with its callback, that is the state
  once the operation has completed. With a \<open>null\<close> target the callback assigns \<open>null\<close> and
  the \<open>TypeError\<close> of \<open>this.target.gridLock\<close> is swallowed by the empty \<open>catch\<close>.
\<close>

definition setTarget_then :: "store \<Rightarrow> ref \<Rightarrow> ref option \<Rightarrow> store" where
  "setTarget_then h this tgt =
     (let h1 = h(this := (h this)\<lparr>target := tgt\<rparr>)
      in case tgt of None \<Rightarrow> h1 | Some t \<Rightarrow> gridLock h1 t this)"

definition setTarget :: "store \<Rightarrow> ref \<Rightarrow> ref option \<Rightarrow> store" where
  "setTarget h this tgt = setTarget_then (releaseTarget h this) this tgt"

section \<open>Character: equipment\<close>

definition getEquippedSync :: "character \<Rightarrow> string \<Rightarrow> item option" where
  "getEquippedSync c s = find (\<lambda>obj. equipped_slot obj = Some s) (inventory c)"

text \<open>
  \<open>unEquip(slot)\<close>: \<open>getEquipped\<close> looks the item up at the call; the callback clears its
  \<open>equipped_slot\<close>. The notification \<open>updateClient\<close> changes no character state.
\<close>

definition unEquip :: "character \<Rightarrow> string option \<Rightarrow> character" where
  "unEquip c s =
     (if \<not> truthy_str s then c
      else (let i = findIndex (\<lambda>obj. equipped_slot obj = s) (inventory c)
            in if i = - 1 then c
               else c\<lparr>inventory :=
                      (inventory c)[nat i := ((inventory c) ! nat i)\<lparr>equipped_slot := None\<rparr>]\<rparr>))"

definition slot_of_subtype :: "string \<Rightarrow> string option" where
  "slot_of_subtype st =
     (if st = ''ranged'' then Some ''ranged''
      else if st = ''melee'' then Some ''melee''
      else if st = ''body'' then Some ''armor''
      else if st = ''ammo'' then Some ''ammo''
      else None)"

text \<open>
  \<open>equip(inventoryIndex)\<close>: \<open>None\<close> is the early \<open>return false\<close>, which changes nothing.
  Otherwise the item found in the slot (if any) loses its \<open>equipped_slot\<close> and the
  selected item gets it, in this order.
\<close>

definition equip :: "character \<Rightarrow> int \<Rightarrow> character option" where
  "equip c inventoryIndex =
     (case array_get (inventory c) inventoryIndex of
        None \<Rightarrow> None
      | Some it \<Rightarrow>
          if \<not> equipable (istats it) then None
          else (case slot_of_subtype (subtype it) of
                  None \<Rightarrow> None
                | Some s \<Rightarrow>
                    (let j = findIndex (\<lambda>obj. equipped_slot obj = Some s) (inventory c);
                         inv1 = (if j = - 1 then inventory c
                                 else (inventory c)[nat j :=
                                        ((inventory c) ! nat j)\<lparr>equipped_slot := None\<rparr>]);
                         inv2 = inv1[nat inventoryIndex :=
                                  (inv1 ! nat inventoryIndex)\<lparr>equipped_slot := Some s\<rparr>]
                     in Some (c\<lparr>inventory := inv2\<rparr>))))"

section \<open>Character: inventory\<close>

text \<open>
  \<open>takeItem(inventoryIndex, amount, itemList)\<close>. \<open>itemList\<close> maps a template id to the
  template. Reading a property of \<open>undefined\<close> throws before anything is changed.
\<close>

definition takeItem ::
  "character \<Rightarrow> int \<Rightarrow> int \<Rightarrow> (string \<Rightarrow> item option)
     \<Rightarrow> item option js_result \<times> character" where
  "takeItem c inventoryIndex amount itemList =
     (case array_get (inventory c) inventoryIndex of
        None \<Rightarrow> (Threw, c)
      | Some selectedItem \<Rightarrow>
          (case itemList (item_id selectedItem) of
             None \<Rightarrow> (Threw, c)
           | Some it \<Rightarrow>
               if \<not> stackable (istats it)
               then (Returned (spliced (inventory c) inventoryIndex),
                     c\<lparr>inventory := splice1 (inventory c) inventoryIndex\<rparr>)
               else if durability selectedItem < amount then (Returned None, c)
               else (let takenItem = selectedItem\<lparr>durability := amount\<rparr>;
                         left = selectedItem\<lparr>durability := durability selectedItem - amount\<rparr>;
                         inv1 = (inventory c)[nat inventoryIndex := left]
                     in if durability left \<le> 0
                        then (Returned (Some takenItem),
                              c\<lparr>inventory := splice1 inv1 inventoryIndex\<rparr>)
                        else (Returned (Some takenItem), c\<lparr>inventory := inv1\<rparr>))))"

text \<open>
  \<open>dropItem(item, amount, isFleeing)\<close>. The selector is a number or a string. The draw
  \<open>Math.floor(Math.random() * durability)\<close> is the parameter \<open>roll\<close>, and
  \<open>Game.itemManager.add(id, {durability: amount})\<close> is the parameter \<open>itemManager_add\<close>.
  The callback of \<open>unEquip\<close> writes \<open>equipped_slot\<close> only, which the rest of \<open>dropItem\<close>
  never reads, so its effect is applied where \<open>unEquip\<close> is called.
\<close>

datatype selector = ByNumber int | ByString string

definition dropItem ::
  "(string \<Rightarrow> int option \<Rightarrow> item) \<Rightarrow> int \<Rightarrow> character \<Rightarrow> selector \<Rightarrow> int \<Rightarrow> bool
     \<Rightarrow> item option js_result \<times> character" where
  "dropItem itemManager_add roll c sel amount isFleeing =
     (let itemIndex =
            (case sel of
               ByNumber n \<Rightarrow> n
             | ByString str \<Rightarrow>
                 (case parseInt10 str of
                    Some n \<Rightarrow> n
                  | None \<Rightarrow> findIndex (\<lambda>obj. starts_with (toLowerCase (item_name obj))
                                              (toLowerCase str)) (inventory c)))
      in if itemIndex = - 1 then (Returned None, c)
         else (case array_get (inventory c) itemIndex of
                 None \<Rightarrow> (Threw, c)
               | Some inventoryItem \<Rightarrow>
                   (let c1 = (if isFleeing \<and> truthy_str (slot inventoryItem)
                              then unEquip c (slot inventoryItem) else c)
                    in if truthy_str (slot inventoryItem) \<and> \<not> isFleeing then (Returned None, c1)
                       else if \<not> stackable (istats inventoryItem)
                       then (Returned (spliced (inventory c1) itemIndex),
                             c1\<lparr>inventory := splice1 (inventory c1) itemIndex\<rparr>)
                       else if stat_durability (istats inventoryItem) < amount
                       then (Returned None, c1)
                       else (let amount1 = (if isFleeing then roll + 1 else amount)
                             in if stat_durability (istats inventoryItem) - amount1 \<le> 0
                                then (Returned (spliced (inventory c1) itemIndex),
                                      c1\<lparr>inventory := splice1 (inventory c1) itemIndex\<rparr>)
                                else (Returned (Some (itemManager_add (item_id inventoryItem)
                                                        (Some amount1))),
                                      c1\<lparr>inventory := (inventory c1)[nat itemIndex :=
                                             removeDurability ((inventory c1) ! nat itemIndex)
                                               amount1]\<rparr>)))))"

text \<open>
  \<open>giveItem(itemObj, amount)\<close>. A stackable item is merged into the first inventory
  entry with its id or pushed; any other item is pushed and, for an amount above one,
  the loop \<open>for (i = amount - 1; i > 0; i--)\<close> gives one more instance made by
  \<open>Game.itemManager.add(itemObj.id)\<close> in each round.
\<close>

fun merge_stack :: "string \<Rightarrow> int \<Rightarrow> item list \<Rightarrow> item list" where
  "merge_stack i n [] = []"
| "merge_stack i n (obj # objs) =
     (if item_id obj = i then addDurability obj n # objs else obj # merge_stack i n objs)"

function giveItem ::
  "(string \<Rightarrow> int option \<Rightarrow> item) \<Rightarrow> character \<Rightarrow> item \<Rightarrow> int option \<Rightarrow> character" where
  "giveItem itemManager_add c itemObj amount =
     (if stackable (istats itemObj)
      then (let amount1 = (if truthy_num amount then the amount
                           else stat_durability (istats itemObj))
            in case find (\<lambda>obj. item_id obj = item_id itemObj) (inventory c) of
                 Some inventoryItem \<Rightarrow>
                   c\<lparr>inventory := merge_stack (item_id itemObj) amount1 (inventory c)\<rparr>
               | None \<Rightarrow> c\<lparr>inventory := inventory c @ [setDurability itemObj amount1]\<rparr>)
      else (let c1 = c\<lparr>inventory := inventory c @ [itemObj]\<rparr>
            in case amount of
                 None \<Rightarrow> c1
               | Some n \<Rightarrow>
                   if n = 0 then c1
                   else fold (\<lambda>i s. giveItem itemManager_add s
                                       (itemManager_add (item_id itemObj) None) (Some 1))
                          (rev [1 ..< nat n]) c1))"
  by pat_completeness auto
termination
  by (relation "measure (\<lambda>(f, c, it, amt). case amt of None \<Rightarrow> 0 | Some n \<Rightarrow> nat n)") auto

declare giveItem.simps [simp del]

definition inventorySpaceLeft :: "character \<Rightarrow> int" where
  "inventorySpaceLeft c = inventorySize (stats c) - int (length (inventory c))"

definition hasRoomForItem :: "character \<Rightarrow> item \<Rightarrow> int option \<Rightarrow> bool" where
  "hasRoomForItem c itemObj amount =
     (if stackable (istats itemObj)
      then (case find (\<lambda>obj. item_id obj = item_id itemObj) (inventory c) of
              None \<Rightarrow> \<not> inventorySpaceLeft c \<le> 0
            | Some inventoryItem \<Rightarrow> True)
      else (let amount1 = (if truthy_num amount then the amount else 1)
            in \<not> inventorySpaceLeft c - amount1 < 0))"

section \<open>Character: damage\<close>

text \<open>
  \<open>dealDamage(damage, ignoreArmor)\<close>. The result holds the returned object, the
  character afterwards, and the second argument of the call
  \<open>Game.itemManager.remove(this, armor)\<close> when that call is made (the item manager is not
  among the sources).
\<close>

record damage_report =
  damageBlocked :: int
  damageDealt :: int
  healthLeft :: int
  durabilityLeft :: int
  armorRuined :: bool

definition dealDamage ::
  "character \<Rightarrow> int \<Rightarrow> bool \<Rightarrow> damage_report \<times> character \<times> int option" where
  "dealDamage c damage ignoreArmor =
     (let armorItem = getEquippedSync c ''armor'';
          worn = (\<not> ignoreArmor \<and> armorItem \<noteq> None);
          dur = (if worn then durability (the armorItem) else 0);
          armor = (if worn then damage_reduction (istats (the armorItem)) else 0);
          blocked = min damage (min armor dur);
          dealt = max 0 (damage - blocked);
          hl = max 0 (health (stats c) - dealt);
          dl = max 0 (dur - damage);
          i = findIndex (\<lambda>obj. equipped_slot obj = Some ''armor'') (inventory c);
          c1 = (if worn
                then c\<lparr>inventory := (inventory c)[nat i :=
                        ((inventory c) ! nat i)\<lparr>durability := dl\<rparr>]\<rparr>
                else c);
          c2 = c1\<lparr>stats := (stats c1)\<lparr>health := hl\<rparr>\<rparr>;
          ruined = (dl = 0 \<and> dur \<noteq> 0)
      in (\<lparr>damageBlocked = blocked, damageDealt = dealt, healthLeft = hl,
           durabilityLeft = dl, armorRuined = ruined\<rparr>,
          c2,
          if ruined then Some armor else None))"

section \<open>Character: construction and sequences of inventory operations\<close>

text \<open>
  The constructor, for a persisted record that carries an id, a name and a location
  only: every other field gets the default that the constructor assigns.
\<close>

definition default_stats :: stats where
  "default_stats =
     \<lparr>health = 100, health_max = 100, money = 0, bank = 200, exp = 0, inventorySize = 30\<rparr>"

definition new_Character :: "string \<Rightarrow> string \<Rightarrow> location \<Rightarrow> character" where
  "new_Character uid nm loc =
     \<lparr>user_id = uid, char_name = nm, location = loc, stats = default_stats, inventory = [],
      cooldowns = [], target = None, targetedBy = [], hidden = False\<rparr>"

text \<open>
  A caller's sequence of inventory operations on one character. \<open>apply_op\<close> performs an
  operation as the method does; \<open>apply_op_checked\<close> is the caller that asks
  \<open>hasRoomForItem\<close> first and gives the item only on \<open>true\<close>.
\<close>

datatype inventory_op =
    GiveItem item "int option"
  | Equip int
  | UnEquip "string option"
  | DropItem selector int bool int
  | TakeItem int int

fun apply_op ::
  "(string \<Rightarrow> int option \<Rightarrow> item) \<Rightarrow> (string \<Rightarrow> item option) \<Rightarrow> character \<Rightarrow> inventory_op
     \<Rightarrow> character" where
  "apply_op mk itemList c (GiveItem it amount) = giveItem mk c it amount"
| "apply_op mk itemList c (Equip i) = (case equip c i of None \<Rightarrow> c | Some c1 \<Rightarrow> c1)"
| "apply_op mk itemList c (UnEquip s) = unEquip c s"
| "apply_op mk itemList c (DropItem sel amount isFleeing roll) =
     snd (dropItem mk roll c sel amount isFleeing)"
| "apply_op mk itemList c (TakeItem i amount) = snd (takeItem c i amount itemList)"

fun apply_op_checked ::
  "(string \<Rightarrow> int option \<Rightarrow> item) \<Rightarrow> (string \<Rightarrow> item option) \<Rightarrow> character \<Rightarrow> inventory_op
     \<Rightarrow> character" where
  "apply_op_checked mk itemList c (GiveItem it amount) =
     (if hasRoomForItem c it amount then giveItem mk c it amount else c)"
| "apply_op_checked mk itemList c other = apply_op mk itemList c other"

definition run_ops ::
  "(string \<Rightarrow> int option \<Rightarrow> item) \<Rightarrow> (string \<Rightarrow> item option) \<Rightarrow> inventory_op list \<Rightarrow> character
     \<Rightarrow> character" where
  "run_ops mk itemList ops c = foldl (apply_op mk itemList) c ops"

definition run_ops_checked ::
  "(string \<Rightarrow> int option \<Rightarrow> item) \<Rightarrow> (string \<Rightarrow> item option) \<Rightarrow> inventory_op list \<Rightarrow> character
     \<Rightarrow> character" where
  "run_ops_checked mk itemList ops c = foldl (apply_op_checked mk itemList) c ops"

fun counted_amount :: "inventory_op \<Rightarrow> bool" where
  "counted_amount (GiveItem it (Some n)) = (0 \<le> n)"
| "counted_amount other = True"

text \<open>Concrete items and characters for the examples.\<close>

definition knife :: item where
  "knife = \<lparr>item_id = ''knife'', item_name = ''Knife'', subtype = ''melee'',
            equipped_slot = None, slot = None, durability = 1,
            istats = \<lparr>stackable = False, equipable = True, stat_durability = 1,
                       damage_reduction = 0\<rparr>\<rparr>"

definition vest :: item where
  "vest = \<lparr>item_id = ''vest'', item_name = ''Vest'', subtype = ''body'',
           equipped_slot = Some ''armor'', slot = None, durability = 5,
           istats = \<lparr>stackable = False, equipable = True, stat_durability = 5,
                      damage_reduction = 10\<rparr>\<rparr>"

definition itemManager_knife :: "string \<Rightarrow> int option \<Rightarrow> item" where
  "itemManager_knife i d = knife"

definition no_templates :: "string \<Rightarrow> item option" where
  "no_templates i = None"

definition spawn :: location where
  "spawn = \<lparr>loc_map = ''map1'', loc_x = 0, loc_y = 0\<rparr>"

definition alice :: character where
  "alice = new_Character ''u1'' ''Alice'' spawn"

definition bob :: character where
  "bob = new_Character ''u2'' ''Bob'' spawn"

definition expired_cd :: cooldown where
  "expired_cd = \<lparr>action = ''move'', ticks = 0, started = True, remove = True\<rparr>"

definition live_cd :: cooldown where
  "live_cd = \<lparr>action = ''attack'', ticks = 5, started = True, remove = False\<rparr>"

definition bullets :: item where
  "bullets = \<lparr>item_id = ''9mm'', item_name = ''9mm rounds'', subtype = ''ammo'',
              equipped_slot = None, slot = None, durability = 10,
              istats = \<lparr>stackable = True, equipable = True, stat_durability = 10,
                         damage_reduction = 0\<rparr>\<rparr>"

definition full_alice :: character where
  "full_alice = alice\<lparr>stats := (stats alice)\<lparr>inventorySize := 1\<rparr>, inventory := [knife]\<rparr>"

section \<open>The gridlock relation\<close>



definition alice_ref :: ref where
  "alice_ref = 0"

definition bob_ref :: ref where
  "bob_ref = 1"


definition lobby :: store where
  "lobby r = (if r = alice_ref then alice else bob)"



definition armed_alice :: character where
  "armed_alice = alice\<lparr>inventory := [knife\<lparr>equipped_slot := Some ''melee''\<rparr>]\<rparr>"

section \<open>Character manager: movement\<close>

text \<open>
  The world that \<open>move\<close> works on: the character objects, the registry
  \<open>this.characters\<close>, and the messages handed to the socket layer, in order. A room is
  named by \<open>getLocationId\<close>, the string made of map, y and x; it is kept as that triple.
  A socket is named by the \<open>user_id\<close> of its user.
\<close>

type_synonym room = "string \<times> int \<times> int"

datatype event =
    EventToSocket string string string
  | EventToRoom room string string "string list"
  | DispatchToRoom room string string
  | SocketLeave string room
  | SocketJoin string room
  | UpdateClient string
  | MapUpdateClient string

record world =
  objects :: store
  characters :: "ref list"
  events :: "event list"

definition getLocationId :: "character \<Rightarrow> room" where
  "getLocationId c = (loc_map (location c), loc_y (location c), loc_x (location c))"

definition updateLocation :: "character \<Rightarrow> string \<Rightarrow> int \<Rightarrow> int \<Rightarrow> character" where
  "updateLocation c m nx ny =
     c\<lparr>location := \<lparr>loc_map = (if m \<noteq> [] then m else loc_map (location c)),
                      loc_x = nx, loc_y = ny\<rparr>\<rparr>"

definition getSync :: "world \<Rightarrow> string \<Rightarrow> ref option" where
  "getSync w uid =
     (if uid = [] then None else find (\<lambda>obj. user_id (objects w obj) = uid) (characters w))"

fun join_with :: "string \<Rightarrow> string list \<Rightarrow> string" where
  "join_with sep [] = []"
| "join_with sep [s] = s"
| "join_with sep (s # t # ts) = s @ sep @ join_with sep (t # ts)"

datatype axis = X | Y

record moveAction =
  grid :: axis
  direction :: int

definition directionOut :: "moveAction \<Rightarrow> string" where
  "directionOut m =
     (case grid m of
        Y \<Rightarrow> (if direction m = 1 then ''South'' else ''North'')
      | X \<Rightarrow> (if direction m = 1 then ''East'' else ''West''))"

definition directionIn :: "moveAction \<Rightarrow> string" where
  "directionIn m =
     (case grid m of
        Y \<Rightarrow> (if direction m = 1 then ''North'' else ''South'')
      | X \<Rightarrow> (if direction m = 1 then ''West'' else ''East''))"

definition emit :: "world \<Rightarrow> event list \<Rightarrow> world" where
  "emit w es = w\<lparr>events := events w @ es\<rparr>"

text \<open>
  The callback that runs when \<open>isValidLocation\<close> resolves: release the target, leave the
  old room, update the location, join the new room, resync, and start the cooldown made
  before the check. When \<open>add\<close> made no cooldown, \<open>newCooldown.start()\<close> throws as the
  last statement, which changes nothing further.
\<close>

definition move_valid ::
  "world \<Rightarrow> ref \<Rightarrow> string \<Rightarrow> moveAction \<Rightarrow> location \<Rightarrow> cooldown option \<Rightarrow> world" where
  "move_valid w r uid m newLocation newCooldown =
     (let h1 = releaseTarget (objects w) r;
          c1 = h1 r;
          oldRoom = getLocationId c1;
          c2 = updateLocation c1 (loc_map newLocation) (loc_x newLocation) (loc_y newLocation);
          newRoom = getLocationId c2;
          c3 = (case newCooldown of
                  None \<Rightarrow> c2
                | Some cd \<Rightarrow> c2\<lparr>cooldowns := butlast (cooldowns c2) @ [start cd]\<rparr>)
      in emit (w\<lparr>objects := h1(r := c3)\<rparr>)
           [SocketLeave uid oldRoom,
            EventToRoom oldRoom ''info'' (char_name c1 @ '' leaves to the '' @ directionOut m)
              [user_id c1],
            DispatchToRoom oldRoom ''LEFT_GRID'' (user_id c1),
            EventToRoom newRoom ''info''
              (char_name c1 @ '' strolls in from the '' @ directionIn m) [user_id c1],
            DispatchToRoom newRoom ''JOINED_GRID'' (user_id c1),
            SocketJoin uid newRoom,
            UpdateClient (user_id c1),
            MapUpdateClient (user_id c1)])"

text \<open>
  \<open>move(socket, moveAction)\<close>. \<open>Game.config.game.playerCooldowns\<close> and
  \<open>Game.mapManager.isValidLocation\<close> are parameters (configuration and map manager are
  not among the sources); the latter answers the location it resolves with, or \<open>None\<close>
  when it rejects. Logging is not a message to a socket or room and is left out. The
  statements keep the order of the source: the cooldown is added before the location is
  checked.
\<close>

definition move ::
  "(string \<Rightarrow> int option) \<Rightarrow> (location \<Rightarrow> location option) \<Rightarrow> world \<Rightarrow> string \<Rightarrow> moveAction
     \<Rightarrow> world" where
  "move playerCooldowns isValidLocation w uid m =
     (case getSync w uid of
        None \<Rightarrow> w
      | Some r \<Rightarrow>
          (let c = objects w r
           in if targetedBy c \<noteq> []
              then emit w [EventToSocket uid ''warning''
                     (''You can't move as the following players are aiming at you: '' @
                      join_with '', '' (map (\<lambda>obj. char_name (objects w obj)) (targetedBy c)))]
              else if hidden c
              then emit w [EventToSocket uid ''warning''
                     ''You can't move as long as you are hidden. type /unhide to come out of hiding.'']
              else if ticksLeft c ''move'' \<noteq> 0 then w
              else (let (c1, newCooldown) = add playerCooldowns c ''move'' None False;
                        w1 = w\<lparr>objects := (objects w)(r := c1)\<rparr>;
                        l = location c;
                        newLocation = (case grid m of
                                         X \<Rightarrow> l\<lparr>loc_x := loc_x l + direction m\<rparr>
                                       | Y \<Rightarrow> l\<lparr>loc_y := loc_y l + direction m\<rparr>)
                    in case isValidLocation newLocation of
                         None \<Rightarrow> w1
                       | Some newLocation1 \<Rightarrow> move_valid w1 r uid m newLocation1 newCooldown)))"

text \<open>A 10 by 10 map, move cooldown of two ticks, and a world with Alice and Bob in it.\<close>

definition playerCooldowns_default :: "string \<Rightarrow> int option" where
  "playerCooldowns_default a = (if a = ''move'' then Some 2 else None)"

definition isValidLocation_10x10 :: "location \<Rightarrow> location option" where
  "isValidLocation_10x10 l =
     (if loc_map l = ''map1'' \<and> 0 \<le> loc_x l \<and> loc_x l < 10 \<and> 0 \<le> loc_y l \<and> loc_y l < 10
      then Some l else None)"

definition world0 :: world where
  "world0 = \<lparr>objects = lobby, characters = [alice_ref, bob_ref], events = []\<rparr>"

definition step_west :: moveAction where
  "step_west = \<lparr>grid = X, direction = - 1\<rparr>"

definition step_east :: moveAction where
  "step_east = \<lparr>grid = X, direction = 1\<rparr>"

text \<open>
  The cell a move asks for, and the messages that are broadcasts to a room or changes
  of room membership.
\<close>

definition destination :: "character \<Rightarrow> moveAction \<Rightarrow> location" where
  "destination c m =
     (case grid m of
        X \<Rightarrow> (location c)\<lparr>loc_x := loc_x (location c) + direction m\<rparr>
      | Y \<Rightarrow> (location c)\<lparr>loc_y := loc_y (location c) + direction m\<rparr>)"

definition is_room_event :: "event \<Rightarrow> bool" where
  "is_room_event e =
     (case e of EventToRoom a b c d \<Rightarrow> True | DispatchToRoom a b c \<Rightarrow> True
      | SocketLeave a b \<Rightarrow> True | SocketJoin a b \<Rightarrow> True | _ \<Rightarrow> False)"

section \<open>Command manager: validation and dispatch\<close>

text \<open>
  \<open>parseParameters(paramString)\<close>: a space outside double quotes ends a token; the
  quotes stay in the token.
\<close>

fun parse_loop :: "string \<Rightarrow> bool \<Rightarrow> string \<Rightarrow> string list \<Rightarrow> string list" where
  "parse_loop [] insideString param params =
     (if param \<noteq> [] then params @ [param] else params)"
| "parse_loop (c # cs) insideString param params =
     (if c = CHR '' '' \<and> \<not> insideString
      then parse_loop cs insideString [] (params @ [param])
      else parse_loop cs (if c = dquote then \<not> insideString else insideString)
             (param @ [c]) params)"

definition parseParameters :: "string \<Rightarrow> string list" where
  "parseParameters paramString = parse_loop paramString False [] []"

definition trim :: "string \<Rightarrow> string" where
  "trim s = rev (dropWhile is_space (rev (dropWhile is_space s)))"

text \<open>\<open>s.split(c)\<close> for a one-character separator: the empty string gives one empty part.\<close>

fun split_on :: "char \<Rightarrow> string \<Rightarrow> string list" where
  "split_on c [] = [[]]"
| "split_on c (x # xs) =
     (if x = c then [] # split_on c xs
      else (case split_on c xs of
              w # ws \<Rightarrow> (x # w) # ws
            | [] \<Rightarrow> [[x]]))"

text \<open>
  \<open>msgParams.slice(0, n - 1).concat(msgParams.slice(n - 1).join(' '))\<close>: a negative
  bound of \<open>slice\<close> counts from the end.
\<close>

definition slice_to :: "'a list \<Rightarrow> int \<Rightarrow> 'a list" where
  "slice_to xs e = (if e < 0 then take (nat (int (length xs) + e)) xs else take (nat e) xs)"

definition slice_from :: "'a list \<Rightarrow> int \<Rightarrow> 'a list" where
  "slice_from xs s = (if s < 0 then drop (nat (int (length xs) + s)) xs else drop (nat s) xs)"

definition prepare :: "string list \<Rightarrow> int \<Rightarrow> string list" where
  "prepare msgParams n =
     slice_to msgParams (n - 1) @ [join_with '' '' (slice_from msgParams (n - 1))]"

text \<open>
  A message parameter is the string the client sent or, once a coercing rule has
  overwritten it, a value that is not a string (a number, a catalog entry, a
  character), kept opaque. A declared parameter has a name and a rule string.
\<close>

datatype val = Str string | Opaque nat

record param =
  param_name :: string
  rules :: string

datatype rule_result = Value val | Reject string | RuleThrew

text \<open>
  The outcome of the promise that \<open>validate\<close> returns. \<open>Pending\<close>: a \<open>TypeError\<close> inside
  the \<open>async\<close> executor leaves the promise unsettled, so neither \<open>then\<close> nor \<open>catch\<close> of
  the caller runs.
\<close>

datatype outcome = Resolved "val list" | Rejected string | Pending

definition directions :: "string list" where
  "directions = [''north'', ''east'', ''south'', ''west'', ''n'', ''e'', ''s'', ''w'']"

definition external_kinds :: "string list" where
  "external_kinds =
     [''integer'', ''float'', ''min'', ''max'', ''alphanum'', ''faction'', ''gamemap'', ''shop'',
      ''item'', ''player'', ''target'', ''npc'']"

text \<open>
  One round of the \<open>switch (rule[0])\<close>. The cases on strings that need no number parsing
  beyond \<open>parseInt\<close> and no other manager are written out: \<open>required\<close>, \<open>minlen\<close>,
  \<open>maxlen\<close>, \<open>direction\<close>. The numeric cases (floating point) and the lookups in the
  faction, map, structure, item and character managers, and every case on a value that
  is no longer a string, are the parameter \<open>ext\<close>, which gets the rule kind, \<open>rule[1]\<close>,
  the declared parameter, the player and the value. A kind that the switch does not
  name leaves the value as it is. A comparison with \<open>NaN\<close> is false.
\<close>

type_synonym ext_rules = "string \<Rightarrow> string option \<Rightarrow> param \<Rightarrow> ref option \<Rightarrow> val \<Rightarrow> rule_result"

definition rule_switch :: "ext_rules \<Rightarrow> ref option \<Rightarrow> param \<Rightarrow> string \<Rightarrow> val \<Rightarrow> rule_result" where
  "rule_switch ext player p rule msgParam =
     (let parts = split_on (CHR '':'') rule;
          kind = hd parts;
          arg = (if 1 < length parts then Some (parts ! 1) else None)
      in case msgParam of
           Opaque v \<Rightarrow>
             (if kind \<in> set external_kinds \<or> kind \<in> {''required'', ''minlen'', ''maxlen'', ''direction''}
              then ext kind arg p player msgParam else Value msgParam)
         | Str s \<Rightarrow>
             if kind = ''required'' then Value msgParam
             else if kind = ''minlen''
             then (case arg of
                     None \<Rightarrow> Value msgParam
                   | Some a \<Rightarrow>
                       (case parseInt10 a of
                          None \<Rightarrow> Value msgParam
                        | Some n \<Rightarrow>
                            if int (length s) < n
                            then Reject (param_name p @ '' must be at least '' @ a @
                                         '' characters long.'')
                            else Value msgParam))
             else if kind = ''maxlen''
             then (case arg of
                     None \<Rightarrow> Value msgParam
                   | Some a \<Rightarrow>
                       (case parseInt10 a of
                          None \<Rightarrow> Value msgParam
                        | Some n \<Rightarrow>
                            if n < int (length s)
                            then Reject (param_name p @ '' cannot be longer than '' @ a @
                                         '' characters.'')
                            else Value msgParam))
             else if kind = ''direction''
             then (if toLowerCase s \<notin> set directions
                   then Reject (param_name p @ '' does not appear to be a valid direction.'')
                   else Value msgParam)
             else if kind \<in> set external_kinds then ext kind arg p player msgParam
             else Value msgParam)"

text \<open>The loop over the rules of one slot: each round overwrites the slot.\<close>

fun run_rules :: "ext_rules \<Rightarrow> ref option \<Rightarrow> param \<Rightarrow> string list \<Rightarrow> val \<Rightarrow> rule_result" where
  "run_rules ext player p [] v = Value v"
| "run_rules ext player p (rule # others) v =
     (case rule_switch ext player p rule v of
        Value v1 \<Rightarrow> run_rules ext player p others v1
      | Reject e \<Rightarrow> Reject e
      | RuleThrew \<Rightarrow> RuleThrew)"

text \<open>
  The loop over the declared slots. The slots are visited from left to right and each
  one once, so \<open>msgParams\<close> is kept as the values already visited followed by the tokens
  not yet visited. A slot without a token is \<open>undefined\<close>, on which \<open>stripEncapsulation\<close>
  throws. The \<open>break\<close> for an empty slot without \<open>required\<close> stands in the body of the
  outer loop: it leaves the loop over the slots, and \<open>resolve(msgParams)\<close> follows.
\<close>

fun validate_slots ::
  "ext_rules \<Rightarrow> ref option \<Rightarrow> param list \<Rightarrow> val list \<Rightarrow> string list \<Rightarrow> outcome" where
  "validate_slots ext player [] seen rest = Resolved (seen @ map Str rest)"
| "validate_slots ext player (p # ps) seen [] = Pending"
| "validate_slots ext player (p # ps) seen (tok # rest) =
     (let s = stripEncapsulation tok
      in if rules p = [] then validate_slots ext player ps (seen @ [Str s]) rest
         else (let rl = split_on (CHR ''|'') (toLowerCase (rules p))
               in if s = [] \<and> ''required'' \<notin> set rl
                  then Resolved (seen @ Str s # map Str rest)
                  else (case run_rules ext player p rl (Str s) of
                          Value v \<Rightarrow> validate_slots ext player ps (seen @ [v]) rest
                        | Reject e \<Rightarrow> Rejected e
                        | RuleThrew \<Rightarrow> Pending)))"

definition validate ::
  "ext_rules \<Rightarrow> ref option \<Rightarrow> string list \<Rightarrow> param list option \<Rightarrow> outcome" where
  "validate ext player msgParams cmdParams =
     (case cmdParams of
        None \<Rightarrow> Resolved (map Str msgParams)
      | Some ps \<Rightarrow> validate_slots ext player ps [] (prepare msgParams (int (length ps))))"

text \<open>
  \<open>onDispatch(socket, action)\<close>. A registered command carries its declared parameters
  and its description; its handler is \<open>method\<close>, and a call of it is recorded with the
  command, the character it is given (\<open>None\<close> is \<open>null\<close>) and the validated parameters.
\<close>

datatype action_type = GAME_COMMAND | OTHER_ACTION

record action =
  action_type :: action_type
  payload :: "string option"

record command =
  cmd_params :: "param list option"
  cmd_description :: string

datatype dispatch_effect =
    Method string "ref option" "val list" string
  | Event event

definition onDispatch ::
  "ext_rules \<Rightarrow> (string \<Rightarrow> command option) \<Rightarrow> world \<Rightarrow> string \<Rightarrow> action \<Rightarrow> dispatch_effect list" where
  "onDispatch ext commands w uid act =
     (if action_type act \<noteq> GAME_COMMAND then []
      else if \<not> truthy_str (payload act) then []
      else (let pl = trim (the (payload act))
            in if pl = [] then []
               else (case parseParameters pl of
                       [] \<Rightarrow> []
                     | first # params \<Rightarrow>
                         (let cmd = toLowerCase first
                          in case commands cmd of
                               None \<Rightarrow>
                                 [Event (EventToSocket uid ''error''
                                    (''Command '' @ cmd @ '' is not a valid command.''))]
                             | Some c \<Rightarrow>
                                 (let character = getSync w uid
                                  in case validate ext character params (cmd_params c) of
                                       Resolved validParams \<Rightarrow>
                                         [Method cmd character validParams (cmd_description c)]
                                     | Rejected e \<Rightarrow> [Event (EventToSocket uid ''error'' e)]
                                     | Pending \<Rightarrow> [])))))"

text \<open>Concrete commands for the examples; no external rule is used in them.\<close>

definition ext_unused :: ext_rules where
  "ext_unused kind arg p player v = RuleThrew"

definition walk_params :: "param list" where
  "walk_params = [\<lparr>param_name = ''label'', rules = ''minlen:2''\<rparr>,
                  \<lparr>param_name = ''dir'', rules = ''direction''\<rparr>]"

definition commands0 :: "string \<Rightarrow> command option" where
  "commands0 k =
     (if k = ''/walk'' then Some \<lparr>cmd_params = Some walk_params, cmd_description = ''Walk''\<rparr>
      else if k = ''/help'' then Some \<lparr>cmd_params = None, cmd_description = ''Help''\<rparr>
      else None)"

definition empty_world :: world where
  "empty_world = \<lparr>objects = lobby, characters = [], events = []\<rparr>"

section \<open>Properties\<close>

lemma char_at_0: "char_at s 0 = (case s of [] \<Rightarrow> None | c # _ \<Rightarrow> Some c)"
  by (cases s) (simp_all add: char_at_def)

lemma char_at_last:
  "char_at s (int (length s) - 1) = (if s = [] then None else Some (last s))"
  by (cases s rule: rev_cases) (simp_all add: char_at_def nth_append)

lemma last_not_member: "c \<notin> set xs \<Longrightarrow> xs \<noteq> [] \<Longrightarrow> last xs \<noteq> c"
  by (metis last_in_set)

lemma substring_inner: "substring (c # mid @ [d]) 1 (int (length (c # mid @ [d])) - 1) = mid"
  by (simp add: substring_def Let_def min_def max_def)

lemma substring_chop2:
  "2 \<le> length s \<Longrightarrow> substring s 0 (int (length s) - 2) = take (length s - 2) s"
  by (simp add: substring_def Let_def min_def max_def nat_diff_distrib')

text \<open>
  C10. A token of length at least two that starts and ends with a double quote and has
  no other double quote comes back as its interior, unchanged. A token that ends with a
  double quote but does not start with one has at least two characters and loses its
  last two characters, not only the closing quote.
\<close>

theorem stripEncapsulation_quoted_and_trailing:
  "(2 \<le> length s \<and> hd s = dquote \<and> last s = dquote \<and> dquote \<notin> set (butlast (tl s))
      \<longrightarrow> stripEncapsulation s = butlast (tl s))
   \<and> (s \<noteq> [] \<and> last s = dquote \<and> hd s \<noteq> dquote
      \<longrightarrow> 2 \<le> length s \<and> stripEncapsulation s = take (length s - 2) s
          \<and> length (stripEncapsulation s) = length s - 2)"
proof (intro conjI impI)
  assume a: "2 \<le> length s \<and> hd s = dquote \<and> last s = dquote \<and> dquote \<notin> set (butlast (tl s))"
  then obtain c rest where s: "s = c # rest"
    by (cases s) auto
  with a have rest: "rest \<noteq> []"
    by auto
  from rest obtain mid d where r: "rest = mid @ [d]"
    by (cases rest rule: rev_cases) auto
  from a s r have cd: "c = dquote" "d = dquote" and mid: "dquote \<notin> set mid"
    by auto
  have p1: "substring s 1 (int (length s) - 1) = mid"
    unfolding s r by (rule substring_inner)
  have "char_at mid (int (length mid) - 1) \<noteq> Some dquote"
    using mid by (auto simp: char_at_last dest: last_not_member)
  then show "stripEncapsulation s = butlast (tl s)"
    using p1 cd by (simp add: stripEncapsulation_def char_at_0 s r)
next
  assume b: "s \<noteq> [] \<and> last s = dquote \<and> hd s \<noteq> dquote"
  then obtain c rest where s: "s = c # rest" and c: "c \<noteq> dquote"
    by (cases s) auto
  from b s c have "rest \<noteq> []" by auto
  then show len: "2 \<le> length s"
    using s by (cases rest) auto
  have first: "char_at s 0 \<noteq> Some dquote"
    using s c by (simp add: char_at_0)
  have lastq: "char_at s (int (length s) - 1) = Some dquote"
    using b by (simp add: char_at_last)
  show eq: "stripEncapsulation s = take (length s - 2) s"
    using first lastq len by (simp add: stripEncapsulation_def substring_chop2)
  show "length (stripEncapsulation s) = length s - 2"
    using eq len by simp
qed

theorem stripEncapsulation_quoted_and_trailing_witness:
  "stripEncapsulation [dquote, CHR ''a'', CHR ''b'', dquote] = ''ab''
   \<and> stripEncapsulation [CHR ''a'', CHR ''b'', CHR ''c'', dquote] = ''ab''"
proof -
  have q: "dquote \<noteq> CHR ''a''" "dquote \<noteq> CHR ''b''" "CHR ''a'' \<noteq> dquote"
    by (simp_all add: dquote_def)
  show ?thesis
    using stripEncapsulation_quoted_and_trailing [of "[dquote, CHR ''a'', CHR ''b'', dquote]"]
      stripEncapsulation_quoted_and_trailing [of "[CHR ''a'', CHR ''b'', CHR ''c'', dquote]"]
      q
    by simp
qed

subsection \<open>Damage\<close>

lemma find_findIndex:
  "find P xs = Some a \<Longrightarrow> 0 \<le> findIndex P xs \<and> findIndex P xs < int (length xs) \<and> xs ! nat (findIndex P xs) = a \<and> P a"
  by (induction xs) (auto simp: Let_def nat_add_distrib split: if_splits)

lemma findIndex_none: "find P xs = None \<Longrightarrow> findIndex P xs = - 1"
  by (induction xs) (auto simp: Let_def split: if_splits)

lemma find_update_first:
  "find P xs = Some a \<Longrightarrow> P b \<Longrightarrow> find P (xs[nat (findIndex P xs) := b]) = Some b"
  by (induction xs) (auto simp: Let_def nat_add_distrib dest: find_findIndex split: if_splits)



lemma dealDamage_unworn:
  assumes "ignoreArmor \<or> getEquippedSync c ''armor'' = None"
  shows "dealDamage c damage ignoreArmor =
     (\<lparr>damageBlocked = min damage 0, damageDealt = max 0 (damage - min damage 0),
       healthLeft = max 0 (health (stats c) - max 0 (damage - min damage 0)),
       durabilityLeft = max 0 (0 - damage), armorRuined = False\<rparr>,
      c\<lparr>stats := (stats c)\<lparr>health := max 0 (health (stats c) - max 0 (damage - min damage 0))\<rparr>\<rparr>,
      None)"
proof -
  have w: "(\<not> ignoreArmor \<and> getEquippedSync c ''armor'' \<noteq> None) = False"
    using assms by auto
  show ?thesis
    apply (simp only: dealDamage_def Let_def w if_False)
    apply simp
    done
qed


lemma dealDamage_worn:
  assumes "getEquippedSync c ''armor'' = Some it" and "\<not> ignoreArmor"
  shows "dealDamage c damage ignoreArmor =
     (let blocked = min damage (min (damage_reduction (istats it)) (durability it));
          dealt = max 0 (damage - blocked);
          hl = max 0 (health (stats c) - dealt);
          dl = max 0 (durability it - damage);
          i = findIndex (\<lambda>obj. equipped_slot obj = Some ''armor'') (inventory c)
      in (\<lparr>damageBlocked = blocked, damageDealt = dealt, healthLeft = hl, durabilityLeft = dl,
           armorRuined = (dl = 0 \<and> durability it \<noteq> 0)\<rparr>,
          c\<lparr>inventory := (inventory c)[nat i := it\<lparr>durability := dl\<rparr>],
             stats := (stats c)\<lparr>health := hl\<rparr>\<rparr>,
          if dl = 0 \<and> durability it \<noteq> 0 then Some (damage_reduction (istats it)) else None))"
proof -
  have nth: "inventory c ! nat (findIndex (\<lambda>obj. equipped_slot obj = Some ''armor'') (inventory c)) = it"
    using assms(1) find_findIndex [of "\<lambda>obj. equipped_slot obj = Some ''armor''" "inventory c" it]
    by (simp add: getEquippedSync_def)
  have w: "(\<not> ignoreArmor \<and> Some it \<noteq> None) = True"
    using assms by simp
  show ?thesis
    apply (simp only: dealDamage_def Let_def assms(1) w if_True option.sel nth)
    apply simp
    done
qed

text \<open>
  C3. For a damage amount that is not negative, and an equipped armor whose durability
  is not negative: the blocked amount is the minimum of the amount, the armor's damage
  reduction and its durability when armor is equipped and not ignored, and 0 otherwise;
  the dealt amount is \<open>max 0 (amount - blocked)\<close>; the health left, which is also the
  character's new health, is \<open>max 0 (health - dealt)\<close>; the durability left is
  \<open>max 0 (durability - amount)\<close>, the full amount being taken from the armor, and it is
  written to the equipped armor; \<open>armorRuined\<close> holds exactly when a positive durability
  went down to 0.
\<close>

theorem dealDamage_report:
  assumes run: "dealDamage c damage ignoreArmor = (r, c', rm)"
    and dmg: "0 \<le> damage"
    and dur: "\<forall>it. getEquippedSync c ''armor'' = Some it \<longrightarrow> 0 \<le> durability it"
  shows "damageBlocked r =
           (case getEquippedSync c ''armor'' of
              Some it \<Rightarrow> if ignoreArmor then 0
                         else min damage (min (damage_reduction (istats it)) (durability it))
            | None \<Rightarrow> 0)
       \<and> damageDealt r = max 0 (damage - damageBlocked r)
       \<and> healthLeft r = max 0 (health (stats c) - damageDealt r)
       \<and> health (stats c') = healthLeft r
       \<and> durabilityLeft r =
           (case getEquippedSync c ''armor'' of
              Some it \<Rightarrow> if ignoreArmor then 0 else max 0 (durability it - damage)
            | None \<Rightarrow> 0)
       \<and> (armorRuined r \<longleftrightarrow>
            (\<exists>it. getEquippedSync c ''armor'' = Some it \<and> \<not> ignoreArmor
                  \<and> 0 < durability it \<and> durabilityLeft r = 0))
       \<and> (\<forall>it. getEquippedSync c ''armor'' = Some it \<and> \<not> ignoreArmor \<longrightarrow>
             getEquippedSync c' ''armor'' = Some (it\<lparr>durability := durabilityLeft r\<rparr>))"
proof (cases "ignoreArmor \<or> getEquippedSync c ''armor'' = None")
  case True
  from dealDamage_unworn [OF True, of damage] run
  have r: "r = \<lparr>damageBlocked = min damage 0, damageDealt = max 0 (damage - min damage 0),
       healthLeft = max 0 (health (stats c) - max 0 (damage - min damage 0)),
       durabilityLeft = max 0 (0 - damage), armorRuined = False\<rparr>"
    and c': "c' = c\<lparr>stats := (stats c)\<lparr>health := max 0 (health (stats c) - max 0 (damage - min damage 0))\<rparr>\<rparr>"
    by simp_all
  from True dmg show ?thesis
    unfolding r c' by (cases "getEquippedSync c ''armor''") auto
next
  case False
  then obtain it where it: "getEquippedSync c ''armor'' = Some it" and ign: "\<not> ignoreArmor"
    by auto
  from dur it have d0: "0 \<le> durability it" by simp
  define dl where "dl = max 0 (durability it - damage)"
  define bl where "bl = min damage (min (damage_reduction (istats it)) (durability it))"
  define hl where "hl = max 0 (health (stats c) - max 0 (damage - bl))"
  from dealDamage_worn [OF it ign, of damage] run
  have r: "r = \<lparr>damageBlocked = bl, damageDealt = max 0 (damage - bl), healthLeft = hl,
                durabilityLeft = dl, armorRuined = (dl = 0 \<and> durability it \<noteq> 0)\<rparr>"
    and c': "c' = c\<lparr>inventory := (inventory c)[nat (findIndex (\<lambda>obj. equipped_slot obj = Some ''armor'') (inventory c)) := it\<lparr>durability := dl\<rparr>],
             stats := (stats c)\<lparr>health := hl\<rparr>\<rparr>"
    by (simp_all add: Let_def dl_def bl_def hl_def)
  have eq: "equipped_slot (it\<lparr>durability := dl\<rparr>) = Some ''armor''"
    using it find_findIndex [of "\<lambda>obj. equipped_slot obj = Some ''armor''" "inventory c" it]
    by (simp add: getEquippedSync_def)
  have upd: "getEquippedSync c' ''armor'' = Some (it\<lparr>durability := dl\<rparr>)"
    unfolding c' getEquippedSync_def using it eq
    by (simp add: getEquippedSync_def find_update_first)
  have hc: "health (stats c') = hl"
    unfolding c' by simp
  show ?thesis
    using it ign d0 upd hc unfolding r by (auto simp: bl_def hl_def dl_def)
qed

theorem dealDamage_report_witness:
  "fst (dealDamage alice 30 False) =
     \<lparr>damageBlocked = 0, damageDealt = 30, healthLeft = 70, durabilityLeft = 0,
      armorRuined = False\<rparr>
   \<and> fst (dealDamage (alice\<lparr>inventory := [vest]\<rparr>) 8 False) =
     \<lparr>damageBlocked = 5, damageDealt = 3, healthLeft = 97, durabilityLeft = 0,
      armorRuined = True\<rparr>"
proof -
  have n: "getEquippedSync alice ''armor'' = None"
    by (simp add: getEquippedSync_def alice_def new_Character_def)
  have h: "health (stats alice) = 100"
    by (simp add: alice_def new_Character_def default_stats_def)
  obtain r c' rm where run: "dealDamage alice 30 False = (r, c', rm)"
    by (cases "dealDamage alice 30 False") auto
  have "r = \<lparr>damageBlocked = 0, damageDealt = 30, healthLeft = 70, durabilityLeft = 0,
      armorRuined = False\<rparr>"
    using dealDamage_report [OF run] n h by (cases r) simp
  moreover
  have v: "getEquippedSync (alice\<lparr>inventory := [vest]\<rparr>) ''armor'' = Some vest"
    by (simp add: getEquippedSync_def vest_def)
  have hv: "health (stats (alice\<lparr>inventory := [vest]\<rparr>)) = 100"
    by (simp add: alice_def new_Character_def default_stats_def)
  have dv: "durability vest = 5" "damage_reduction (istats vest) = 10"
    by (simp_all add: vest_def)
  obtain r2 c2 rm2 where run2: "dealDamage (alice\<lparr>inventory := [vest]\<rparr>) 8 False = (r2, c2, rm2)"
    by (cases "dealDamage (alice\<lparr>inventory := [vest]\<rparr>) 8 False") auto
  have "r2 = \<lparr>damageBlocked = 5, damageDealt = 3, healthLeft = 97, durabilityLeft = 0,
      armorRuined = True\<rparr>"
    using dealDamage_report [OF run2] v hv dv by (cases r2) simp
  ultimately show ?thesis
    using run run2 by simp
qed


subsection \<open>Cooldown reaper\<close>

lemma cleanup_filter: "cooldowns (cleanup c) = filter (\<lambda>obj. remove obj) (cooldowns c)"
  by (simp add: cleanup_def)

text \<open>
  C6. The reaper keeps exactly the entries flagged for removal and drops every entry
  that is not flagged: on a list with one expired and one running cooldown, the expired
  one stays and the running one is gone, so that its action has no ticks left.
\<close>

theorem cleanup_keeps_only_flagged:
  "cooldowns (cleanup (alice\<lparr>cooldowns := [expired_cd, live_cd]\<rparr>)) = [expired_cd]
   \<and> ticksLeft (alice\<lparr>cooldowns := [expired_cd, live_cd]\<rparr>) ''attack'' = 5
   \<and> ticksLeft (cleanup (alice\<lparr>cooldowns := [expired_cd, live_cd]\<rparr>)) ''attack'' = 0"
  by (simp add: cleanup_def ticksLeft_def expired_cd_def live_cd_def)

subsection \<open>Giving items\<close>

lemma giveItem_stackable:
  "stackable (istats itemObj) \<Longrightarrow>
   giveItem mk c itemObj amount =
     (let amount1 = (if truthy_num amount then the amount else stat_durability (istats itemObj))
      in case find (\<lambda>obj. item_id obj = item_id itemObj) (inventory c) of
           Some inventoryItem \<Rightarrow>
             c\<lparr>inventory := merge_stack (item_id itemObj) amount1 (inventory c)\<rparr>
         | None \<Rightarrow> c\<lparr>inventory := inventory c @ [setDurability itemObj amount1]\<rparr>)"
  by (subst giveItem.simps) simp

lemma giveItem_single:
  "\<not> stackable (istats itemObj) \<Longrightarrow> amount = None \<or> amount = Some 0 \<or> amount = Some 1 \<Longrightarrow>
   giveItem mk c itemObj amount = c\<lparr>inventory := inventory c @ [itemObj]\<rparr>"
  by (subst giveItem.simps) auto

lemma giveItem_loop:
  "\<not> stackable (istats itemObj) \<Longrightarrow> n \<noteq> 0 \<Longrightarrow>
   giveItem mk c itemObj (Some n) =
     fold (\<lambda>i s. giveItem mk s (mk (item_id itemObj) None) (Some 1)) (rev [1 ..< nat n])
       (c\<lparr>inventory := inventory c @ [itemObj]\<rparr>)"
  by (subst giveItem.simps) simp

lemma fold_push:
  "fold (\<lambda>i s. s\<lparr>inventory := inventory s @ [x]\<rparr>) xs c =
     c\<lparr>inventory := inventory c @ replicate (length xs) x\<rparr>"
  by (induction xs arbitrary: c) (simp_all add: replicate_append_same)

lemma giveItem_instances:
  assumes "\<not> stackable (istats itemObj)" and "1 \<le> n"
    and "\<not> stackable (istats (mk (item_id itemObj) None))"
  shows "giveItem mk c itemObj (Some n) =
     c\<lparr>inventory := inventory c @ itemObj # replicate (nat n - 1) (mk (item_id itemObj) None)\<rparr>"
proof -
  have step: "(\<lambda>i s. giveItem mk s (mk (item_id itemObj) None) (Some 1)) =
        (\<lambda>i s. s\<lparr>inventory := inventory s @ [mk (item_id itemObj) None]\<rparr>)"
    using assms(3) by (simp add: giveItem_single)
  from assms(2) have "n \<noteq> 0" by simp
  then show ?thesis
    using assms(1) by (simp add: giveItem_loop step fold_push)
qed

lemma merge_stack_update:
  "find (\<lambda>obj. item_id obj = i) xs = Some a \<Longrightarrow>
   merge_stack i n xs =
     xs[nat (findIndex (\<lambda>obj. item_id obj = i) xs) :=
          addDurability (xs ! nat (findIndex (\<lambda>obj. item_id obj = i) xs)) n]"
  by (induction xs) (auto simp: Let_def nat_add_distrib dest: find_findIndex split: if_splits)

lemma merge_stack_ids: "map item_id (merge_stack i n xs) = map item_id xs"
  by (induction xs) (simp_all add: addDurability_def)

lemma filter_by_id:
  "map item_id xs = map item_id ys \<Longrightarrow>
   length (filter (\<lambda>obj. item_id obj = i) xs) = length (filter (\<lambda>obj. item_id obj = i) ys)"
proof -
  assume "map item_id xs = map item_id ys"
  then have "length (filter (\<lambda>j. j = i) (map item_id xs)) = length (filter (\<lambda>j. j = i) (map item_id ys))"
    by simp
  then show ?thesis
    by (simp add: filter_map comp_def)
qed

lemma find_None_filter: "find P xs = None \<longleftrightarrow> filter P xs = []"
  by (induction xs) auto


lemma dropItem_plain:
  assumes "i < length (inventory c)"
    and "\<not> truthy_str (slot (inventory c ! i))"
    and "\<not> stackable (istats (inventory c ! i))"
  shows "dropItem mk roll c (ByNumber (int i)) a False =
     (Returned (Some (inventory c ! i)),
      c\<lparr>inventory := take i (inventory c) @ drop (Suc i) (inventory c)\<rparr>)"
proof -
  have g: "array_get (inventory c) (int i) = Some (inventory c ! i)"
    using assms(1) by (simp add: array_get_def)
  have st: "splice_start (inventory c) (int i) = i"
    using assms(1) by (simp add: splice_start_def)
  have ne: "int i \<noteq> - 1" by simp
  show ?thesis
    using assms(2,3)
    by (simp only: dropItem_def Let_def selector.case ne if_False g option.case st
          splice1_def spliced_def simp_thms if_True)
qed

text \<open>
  C9. Giving a non-stackable item with an amount \<open>n\<close> of at least one, when the
  instances that the item manager makes for its template are non-stackable too, appends
  exactly \<open>n\<close> entries to the inventory: the item and \<open>n - 1\<close> instances more; each of
  them can be dropped by its own index, which removes that entry and no other (for
  items without a \<open>slot\<close>). Giving a stackable item adds the amount to the first entry
  with the same template id when there is one and appends the item as a new stack with
  that amount otherwise; the number of entries with that id stays what it was, or
  becomes one when there was none.
\<close>

theorem giveItem_entries:
  "(\<not> stackable (istats itemObj) \<and> 1 \<le> n \<and> \<not> stackable (istats (mk (item_id itemObj) None)) \<longrightarrow>
      inventory (giveItem mk c itemObj (Some n)) =
        inventory c @ itemObj # replicate (nat n - 1) (mk (item_id itemObj) None)
    \<and> int (length (inventory (giveItem mk c itemObj (Some n)))) = int (length (inventory c)) + n
    \<and> (\<forall>k<nat n. slot itemObj = None \<and> slot (mk (item_id itemObj) None) = None \<longrightarrow>
          (let c1 = giveItem mk c itemObj (Some n); i = length (inventory c) + k
           in dropItem mk roll c1 (ByNumber (int i)) a False =
                (Returned (Some (inventory c1 ! i)),
                 c1\<lparr>inventory := take i (inventory c1) @ drop (Suc i) (inventory c1)\<rparr>))))
   \<and> (stackable (istats itemObj) \<longrightarrow>
        (let amount1 = (if truthy_num amount then the amount else stat_durability (istats itemObj));
             c1 = giveItem mk c itemObj amount;
             j = nat (findIndex (\<lambda>obj. item_id obj = item_id itemObj) (inventory c))
         in (find (\<lambda>obj. item_id obj = item_id itemObj) (inventory c) = None \<longrightarrow>
               inventory c1 = inventory c @ [setDurability itemObj amount1])
          \<and> (find (\<lambda>obj. item_id obj = item_id itemObj) (inventory c) \<noteq> None \<longrightarrow>
               inventory c1 = (inventory c)[j := addDurability (inventory c ! j) amount1])
          \<and> length (filter (\<lambda>obj. item_id obj = item_id itemObj) (inventory c1)) =
               (if filter (\<lambda>obj. item_id obj = item_id itemObj) (inventory c) = [] then 1
                else length (filter (\<lambda>obj. item_id obj = item_id itemObj) (inventory c)))))"
proof (intro conjI impI)
  assume a: "\<not> stackable (istats itemObj) \<and> 1 \<le> n \<and> \<not> stackable (istats (mk (item_id itemObj) None))"
  let ?new = "mk (item_id itemObj) None"
  let ?c1 = "giveItem mk c itemObj (Some n)"
  from a have c1: "?c1 = c\<lparr>inventory := inventory c @ itemObj # replicate (nat n - 1) ?new\<rparr>"
    by (simp add: giveItem_instances)
  show inv: "inventory ?c1 = inventory c @ itemObj # replicate (nat n - 1) ?new"
    by (simp add: c1)
  show "int (length (inventory ?c1)) = int (length (inventory c)) + n"
    using a by (simp add: inv)
  show "\<forall>k<nat n. slot itemObj = None \<and> slot ?new = None \<longrightarrow>
          (let c1 = ?c1; i = length (inventory c) + k
           in dropItem mk roll c1 (ByNumber (int i)) a False =
                (Returned (Some (inventory c1 ! i)),
                 c1\<lparr>inventory := take i (inventory c1) @ drop (Suc i) (inventory c1)\<rparr>))"
  proof (intro allI impI)
    fix k assume k: "k < nat n" and sl: "slot itemObj = None \<and> slot ?new = None"
    let ?i = "length (inventory c) + k"
    have len: "?i < length (inventory ?c1)"
      using k by (simp add: inv)
    have nth: "inventory ?c1 ! ?i = (if k = 0 then itemObj else ?new)"
      using k by (simp add: inv nth_append nth_Cons')
    have "\<not> truthy_str (slot (inventory ?c1 ! ?i))" "\<not> stackable (istats (inventory ?c1 ! ?i))"
      using sl a by (simp_all add: nth)
    from dropItem_plain [OF len this]
    show "let c1 = ?c1; i = ?i
           in dropItem mk roll c1 (ByNumber (int i)) a False =
                (Returned (Some (inventory c1 ! i)),
                 c1\<lparr>inventory := take i (inventory c1) @ drop (Suc i) (inventory c1)\<rparr>)"
      by (simp only: Let_def)
  qed
next
  assume st: "stackable (istats itemObj)"
  let ?P = "\<lambda>obj. item_id obj = item_id itemObj"
  let ?a1 = "if truthy_num amount then the amount else stat_durability (istats itemObj)"
  let ?c1 = "giveItem mk c itemObj amount"
  have none: "inventory ?c1 = inventory c @ [setDurability itemObj ?a1]"
    if "find ?P (inventory c) = None"
    using st that by (simp add: giveItem_stackable)
  have some: "inventory ?c1 = merge_stack (item_id itemObj) ?a1 (inventory c)"
    if "find ?P (inventory c) \<noteq> None"
    using st that by (auto simp: giveItem_stackable)
  have upd: "inventory ?c1 = (inventory c)[nat (findIndex ?P (inventory c)) :=
               addDurability (inventory c ! nat (findIndex ?P (inventory c))) ?a1]"
    if "find ?P (inventory c) \<noteq> None"
    using some [OF that] that merge_stack_update [of "item_id itemObj" "inventory c"] by auto
  have cnt: "length (filter ?P (inventory ?c1)) =
               (if filter ?P (inventory c) = [] then 1 else length (filter ?P (inventory c)))"
  proof (cases "find ?P (inventory c)")
    case None
    then show ?thesis
      using none by (simp add: find_None_filter setDurability_def)
  next
    case (Some x)
    then have "filter ?P (inventory c) \<noteq> []"
      using find_None_filter [of ?P "inventory c"] by simp
    moreover have "length (filter ?P (inventory ?c1)) = length (filter ?P (inventory c))"
      using some Some by (simp add: filter_by_id [OF merge_stack_ids])
    ultimately show ?thesis by simp
  qed
  show "let amount1 = ?a1; c1 = ?c1; j = nat (findIndex ?P (inventory c))
         in (find ?P (inventory c) = None \<longrightarrow>
               inventory c1 = inventory c @ [setDurability itemObj amount1])
          \<and> (find ?P (inventory c) \<noteq> None \<longrightarrow>
               inventory c1 = (inventory c)[j := addDurability (inventory c ! j) amount1])
          \<and> length (filter ?P (inventory c1)) =
               (if filter ?P (inventory c) = [] then 1
                else length (filter ?P (inventory c)))"
    using none upd cnt by (simp only: Let_def) blast
qed


theorem giveItem_entries_witness:
  "inventory (giveItem itemManager_knife alice knife (Some 3)) = [knife, knife, knife]
   \<and> dropItem itemManager_knife 0 (giveItem itemManager_knife alice knife (Some 3))
         (ByNumber 1) 1 False =
       (Returned (Some knife),
        (giveItem itemManager_knife alice knife (Some 3))\<lparr>inventory := [knife, knife]\<rparr>)
   \<and> inventory (giveItem itemManager_knife (alice\<lparr>inventory := [bullets]\<rparr>) bullets (Some 5)) =
       [bullets\<lparr>durability := 15\<rparr>]
   \<and> inventory (giveItem itemManager_knife alice bullets (Some 5)) =
       [bullets\<lparr>durability := 5\<rparr>]"
proof -
  have k: "\<not> stackable (istats knife)" "slot knife = None" "item_id knife = ''knife''"
    by (simp_all add: knife_def)
  have b: "stackable (istats bullets)" "item_id bullets = ''9mm''" "durability bullets = 10"
    by (simp_all add: bullets_def)
  have e: "inventory alice = []"
    by (simp add: alice_def new_Character_def)
  note t1 = giveItem_entries [of knife 3 itemManager_knife alice 0 1 None]
  have inv: "inventory (giveItem itemManager_knife alice knife (Some 3)) = [knife, knife, knife]"
    using t1 k e by (simp add: itemManager_knife_def eval_nat_numeral)
  have "\<forall>k<3. dropItem itemManager_knife 0 (giveItem itemManager_knife alice knife (Some 3))
                (ByNumber (int k)) 1 False =
              (Returned (Some ([knife, knife, knife] ! k)),
               (giveItem itemManager_knife alice knife (Some 3))
                 \<lparr>inventory := take k [knife, knife, knife] @ drop (Suc k) [knife, knife, knife]\<rparr>)"
    using t1 k e inv by (simp add: itemManager_knife_def Let_def)
  from this [rule_format, of 1]
  have d: "dropItem itemManager_knife 0 (giveItem itemManager_knife alice knife (Some 3))
         (ByNumber 1) 1 False =
       (Returned (Some knife),
        (giveItem itemManager_knife alice knife (Some 3))\<lparr>inventory := [knife, knife]\<rparr>)"
    by simp
  note t2 = giveItem_entries [of bullets 0 itemManager_knife "alice\<lparr>inventory := [bullets]\<rparr>" 0 1 "Some 5"]
  have s1: "inventory (giveItem itemManager_knife (alice\<lparr>inventory := [bullets]\<rparr>) bullets (Some 5)) =
       [bullets\<lparr>durability := 15\<rparr>]"
    using t2 b by (simp add: Let_def addDurability_def)
  note t3 = giveItem_entries [of bullets 0 itemManager_knife alice 0 1 "Some 5"]
  have s2: "inventory (giveItem itemManager_knife alice bullets (Some 5)) = [bullets\<lparr>durability := 5\<rparr>]"
    using t3 b e by (simp add: Let_def setDurability_def)
  show ?thesis
    using inv d s1 s2 by simp
qed

subsection \<open>Inventory capacity\<close>

lemma merge_stack_length: "length (merge_stack i n xs) = length xs"
  by (induction xs) simp_all

lemma giveItem_one_more:
  "stats (giveItem mk c it (Some 1)) = stats c
   \<and> length (inventory (giveItem mk c it (Some 1))) \<le> Suc (length (inventory c))"
proof (cases "stackable (istats it)")
  case True
  then show ?thesis
    by (cases "find (\<lambda>obj. item_id obj = item_id it) (inventory c)")
       (simp_all add: giveItem_stackable merge_stack_length)
next
  case False
  then show ?thesis by (simp add: giveItem_single)
qed

lemma fold_give_bound:
  "stats (fold (\<lambda>i s. giveItem mk s it (Some 1)) xs c) = stats c
   \<and> length (inventory (fold (\<lambda>i s. giveItem mk s it (Some 1)) xs c))
       \<le> length (inventory c) + length xs"
proof (induction xs arbitrary: c)
  case Nil
  show ?case by simp
next
  case (Cons x xs)
  from Cons.IH [of "giveItem mk c it (Some 1)"] giveItem_one_more [of mk c it]
  show ?case by simp
qed

lemma giveItem_grows:
  assumes "amount = None \<or> (\<exists>n. amount = Some n \<and> 0 \<le> n)"
  shows "stats (giveItem mk c it amount) = stats c
     \<and> int (length (inventory (giveItem mk c it amount))) \<le>
         int (length (inventory c)) +
           (if stackable (istats it)
            then (if find (\<lambda>obj. item_id obj = item_id it) (inventory c) = None then 1 else 0)
            else (if truthy_num amount then the amount else 1))"
proof (cases "stackable (istats it)")
  case True
  then show ?thesis
    by (cases "find (\<lambda>obj. item_id obj = item_id it) (inventory c)")
       (simp_all add: giveItem_stackable merge_stack_length)
next
  case False
  show ?thesis
  proof (cases "truthy_num amount")
    case f: False
    then have "amount = None \<or> amount = Some 0"
      by (cases amount) auto
    with False f show ?thesis
      by (auto simp: giveItem_single)
  next
    case t: True
    with assms obtain n where n: "amount = Some n" "1 \<le> n"
      by (cases amount) auto
    let ?c1 = "c\<lparr>inventory := inventory c @ [it]\<rparr>"
    have g: "giveItem mk c it amount =
        fold (\<lambda>i s. giveItem mk s (mk (item_id it) None) (Some 1)) (rev [1 ..< nat n]) ?c1"
      using False n by (simp add: giveItem_loop)
    from fold_give_bound [of mk "mk (item_id it) None" "rev [1 ..< nat n]" ?c1] n
    have st: "stats (giveItem mk c it amount) = stats c"
      and "length (inventory (giveItem mk c it amount)) \<le> length (inventory c) + nat n"
      unfolding g by simp_all
    then have "int (length (inventory (giveItem mk c it amount))) \<le> int (length (inventory c) + nat n)"
      by (simp only: of_nat_le_iff)
    with n have "int (length (inventory (giveItem mk c it amount))) \<le> int (length (inventory c)) + n"
      by simp
    with st show ?thesis
      using False t n by simp
  qed
qed

lemma equip_frame:
  "equip c i = Some c1 \<Longrightarrow> stats c1 = stats c \<and> length (inventory c1) = length (inventory c)"
  by (auto simp: equip_def Let_def split: option.splits if_splits)

lemma unEquip_frame:
  "stats (unEquip c s) = stats c \<and> length (inventory (unEquip c s)) = length (inventory c)"
  by (simp add: unEquip_def Let_def)

lemma splice1_length: "length (splice1 xs i) \<le> length xs"
  by (simp add: splice1_def)

lemma takeItem_frame:
  "stats (snd (takeItem c i amount itemList)) = stats c
   \<and> length (inventory (snd (takeItem c i amount itemList))) \<le> length (inventory c)"
proof -
  have "length (splice1 ((inventory c)[nat i := z]) i) \<le> length (inventory c)" for z
    using splice1_length [of "(inventory c)[nat i := z]" i] by simp
  then show ?thesis
    by (simp add: takeItem_def Let_def splice1_length split: option.splits)
qed

lemma dropItem_frame:
  "stats (snd (dropItem mk roll c sel amount isFleeing)) = stats c
   \<and> length (inventory (snd (dropItem mk roll c sel amount isFleeing))) \<le> length (inventory c)"
proof -
  define k where "k = (case sel of ByNumber n \<Rightarrow> n
             | ByString str \<Rightarrow>
                 (case parseInt10 str of
                    Some n \<Rightarrow> n
                  | None \<Rightarrow> findIndex (\<lambda>obj. starts_with (toLowerCase (item_name obj))
                                              (toLowerCase str)) (inventory c)))"
  have u: "length (splice1 (inventory (unEquip c s)) k) \<le> length (inventory c)" for s
    using splice1_length [of "inventory (unEquip c s)" k] unEquip_frame [of c s] by simp
  show ?thesis
    unfolding dropItem_def k_def [symmetric]
    by (simp add: Let_def splice1_length unEquip_frame u split: option.splits)
qed


lemma give_checked_bound:
  assumes inv: "int (length (inventory c)) \<le> inventorySize (stats c)"
    and room: "hasRoomForItem c it amount"
    and amt: "amount = None \<or> (\<exists>n. amount = Some n \<and> 0 \<le> n)"
  shows "stats (giveItem mk c it amount) = stats c
       \<and> int (length (inventory (giveItem mk c it amount))) \<le> inventorySize (stats c)"
proof -
  let ?add = "if stackable (istats it)
            then (if find (\<lambda>obj. item_id obj = item_id it) (inventory c) = None then 1 else 0)
            else (if truthy_num amount then the amount else 1)"
  from giveItem_grows [OF amt, of mk c it]
  have st: "stats (giveItem mk c it amount) = stats c"
    and le: "int (length (inventory (giveItem mk c it amount))) \<le> int (length (inventory c)) + ?add"
    by simp_all
  have "int (length (inventory c)) + ?add \<le> inventorySize (stats c)"
    using room inv
    by (cases "find (\<lambda>obj. item_id obj = item_id it) (inventory c)")
       (auto simp: hasRoomForItem_def inventorySpaceLeft_def Let_def split: if_splits)
  with st le show ?thesis by simp
qed

lemma apply_op_checked_bound:
  assumes inv: "int (length (inventory c)) \<le> inventorySize (stats c)"
    and amt: "counted_amount op"
  shows "stats (apply_op_checked mk itemList c op) = stats c
       \<and> int (length (inventory (apply_op_checked mk itemList c op))) \<le> inventorySize (stats c)"
proof (cases op)
  case (GiveItem it amount)
  from amt GiveItem have "amount = None \<or> (\<exists>n. amount = Some n \<and> 0 \<le> n)"
    by (cases amount) auto
  with inv GiveItem show ?thesis
    by (simp add: give_checked_bound)
next
  case (Equip i)
  with inv show ?thesis
    by (cases "equip c i") (auto dest: equip_frame)
next
  case (UnEquip s)
  with inv show ?thesis
    by (simp add: unEquip_frame)
next
  case (DropItem sel amount isFleeing roll)
  with inv dropItem_frame [of mk roll c sel amount isFleeing] show ?thesis
    by simp
next
  case (TakeItem i amount)
  with inv takeItem_frame [of c i amount itemList] show ?thesis
    by simp
qed

lemma foldl_checked_bound:
  "int (length (inventory c)) \<le> inventorySize (stats c) \<Longrightarrow> list_all counted_amount ops \<Longrightarrow>
   stats (foldl (apply_op_checked mk itemList) c ops) = stats c
   \<and> int (length (inventory (foldl (apply_op_checked mk itemList) c ops))) \<le> inventorySize (stats c)"
proof (induction ops arbitrary: c)
  case Nil
  then show ?case by simp
next
  case (Cons op ops)
  from Cons.prems have "counted_amount op" "list_all counted_amount ops" by simp_all
  from apply_op_checked_bound [OF Cons.prems(1) this(1), of mk itemList]
  have s: "stats (apply_op_checked mk itemList c op) = stats c"
    and l: "int (length (inventory (apply_op_checked mk itemList c op)))
              \<le> inventorySize (stats (apply_op_checked mk itemList c op))"
    by simp_all
  from Cons.IH [OF l \<open>list_all counted_amount ops\<close>] s show ?case
    by simp
qed

text \<open>
  C2, as amended. \<open>giveItem\<close> makes no capacity check of its own; the check is
  \<open>hasRoomForItem\<close>, which the caller asks first. For every character whose inventory
  is within \<open>stats.inventorySize\<close> and every sequence of operations in which an item is
  given only after \<open>hasRoomForItem\<close> answered \<open>true\<close> for the same item and amount, the
  amount being \<open>null\<close> or not negative, with \<open>equip\<close>, \<open>unEquip\<close>, \<open>dropItem\<close> and
  \<open>takeItem\<close> in any order between, the capacity is unchanged and the inventory stays
  within it.
\<close>

theorem inventory_bounded_when_checked:
  assumes "int (length (inventory c)) \<le> inventorySize (stats c)"
    and "list_all counted_amount ops"
  shows "inventorySize (stats (run_ops_checked mk itemList ops c)) = inventorySize (stats c)
       \<and> int (length (inventory (run_ops_checked mk itemList ops c)))
            \<le> inventorySize (stats (run_ops_checked mk itemList ops c))"
  using foldl_checked_bound [OF assms, of mk itemList] by (simp add: run_ops_checked_def)

theorem inventory_bounded_when_checked_witness:
  "int (length (inventory full_alice)) \<le> inventorySize (stats full_alice)
   \<and> list_all counted_amount
        [GiveItem knife (Some 2), Equip 0, DropItem (ByNumber 0) 1 False 0, GiveItem knife None]
   \<and> int (length (inventory (run_ops_checked itemManager_knife no_templates
        [GiveItem knife (Some 2), Equip 0, DropItem (ByNumber 0) 1 False 0, GiveItem knife None]
        full_alice))) \<le> 1"
proof -
  have a: "int (length (inventory full_alice)) \<le> inventorySize (stats full_alice)"
    by (simp add: full_alice_def)
  have b: "list_all counted_amount
        [GiveItem knife (Some 2), Equip 0, DropItem (ByNumber 0) 1 False 0, GiveItem knife None]"
    by simp
  have "inventorySize (stats full_alice) = 1"
    by (simp add: full_alice_def)
  with inventory_bounded_when_checked [OF a b, of itemManager_knife no_templates] a b
  show ?thesis by simp
qed

text \<open>
  C2, as stated, fails: with capacity 1 and one knife held, a plain \<open>giveItem\<close> of a
  second knife leaves two entries in the inventory.
\<close>

theorem giveItem_exceeds_capacity:
  "int (length (inventory full_alice)) \<le> inventorySize (stats full_alice)
   \<and> inventory (run_ops itemManager_knife no_templates [GiveItem knife None] full_alice)
       = [knife, knife]
   \<and> \<not> int (length (inventory (run_ops itemManager_knife no_templates [GiveItem knife None]
              full_alice)))
        \<le> inventorySize (stats (run_ops itemManager_knife no_templates [GiveItem knife None]
              full_alice))"
proof -
  have k: "\<not> stackable (istats knife)" by (simp add: knife_def)
  have "run_ops itemManager_knife no_templates [GiveItem knife None] full_alice
          = full_alice\<lparr>inventory := inventory full_alice @ [knife]\<rparr>"
    using k by (simp add: run_ops_def giveItem_single)
  then show ?thesis
    by (simp add: full_alice_def)
qed

subsection \<open>Targeting\<close>



lemma splice1_in_range:
  "0 \<le> i \<Longrightarrow> nat i < length xs \<Longrightarrow> splice1 xs i = take (nat i) xs @ drop (Suc (nat i)) xs"
  by (simp add: splice1_def splice_start_def)




lemma releaseTarget_fields:
  "user_id (releaseTarget h a r) = user_id (h r)
   \<and> target (releaseTarget h a r) = (if r = a then None else target (h r))
   \<and> targetedBy (releaseTarget h a r) =
       (if target (h a) = Some r
           \<and> findIndex (\<lambda>obj. user_id (h obj) = user_id (h a)) (targetedBy (h r)) \<noteq> - 1
        then splice1 (targetedBy (h r))
               (findIndex (\<lambda>obj. user_id (h obj) = user_id (h a)) (targetedBy (h r)))
        else targetedBy (h r))"
  by (cases "target (h a)") (auto simp: releaseTarget_def gridRelease_def Let_def)

lemma gridLock_fields:
  "user_id (gridLock h t c r) = user_id (h r)
   \<and> target (gridLock h t c r) = target (h r)
   \<and> targetedBy (gridLock h t c r) =
       (if r = t \<and> findIndex (\<lambda>obj. user_id (h obj) = user_id (h c)) (targetedBy (h t)) = - 1
        then targetedBy (h t) @ [c] else targetedBy (h r))"
  by (simp add: gridLock_def)

lemma setTarget_then_fields:
  "user_id (setTarget_then h a (Some b) r) = user_id (h r)
   \<and> target (setTarget_then h a (Some b) r) = (if r = a then Some b else target (h r))
   \<and> targetedBy (setTarget_then h a (Some b) r) =
       (if r = b \<and> findIndex (\<lambda>obj. user_id (h obj) = user_id (h a)) (targetedBy (h b)) = - 1
        then targetedBy (h b) @ [a] else targetedBy (h r))"
proof -
  let ?h1 = "h(a := (h a)\<lparr>target := Some b\<rparr>)"
  have p: "(\<lambda>obj. user_id (?h1 obj) = user_id (?h1 a)) = (\<lambda>obj. user_id (h obj) = user_id (h a))"
    by (rule ext) simp
  have t: "targetedBy (?h1 x) = targetedBy (h x)" for x
    by simp
  show ?thesis
    by (simp add: setTarget_then_def Let_def gridLock_fields p t del: fun_upd_apply) simp
qed





lemma setTarget_user_id: "(\<lambda>r. user_id (setTarget h a (Some b) r)) = (\<lambda>r. user_id (h r))"
  by (rule ext) (simp add: setTarget_def setTarget_then_fields releaseTarget_fields)










subsection \<open>Dropping equipped items\<close>

text \<open>
  C5. \<open>dropItem\<close> tests the property \<open>slot\<close>, while equipping writes \<open>equipped_slot\<close>.
  A knife equipped through \<open>equip(0)\<close> is the item in the melee slot, and \<open>dropItem\<close> on
  it with \<open>isFleeing = false\<close> returns the knife and empties the inventory instead of
  returning \<open>null\<close>; with \<open>isFleeing = true\<close> the knife is dropped with its
  \<open>equipped_slot\<close> still set, since \<open>unEquip\<close> is not called.
\<close>

theorem dropItem_drops_equipped_item:
  "equip (alice\<lparr>inventory := [knife]\<rparr>) 0 = Some armed_alice
   \<and> getEquippedSync armed_alice ''melee'' = Some (knife\<lparr>equipped_slot := Some ''melee''\<rparr>)
   \<and> dropItem itemManager_knife 0 armed_alice (ByNumber 0) 1 False =
       (Returned (Some (knife\<lparr>equipped_slot := Some ''melee''\<rparr>)),
        armed_alice\<lparr>inventory := []\<rparr>)
   \<and> dropItem itemManager_knife 0 armed_alice (ByNumber 0) 1 True =
       (Returned (Some (knife\<lparr>equipped_slot := Some ''melee''\<rparr>)),
        armed_alice\<lparr>inventory := []\<rparr>)"
proof -
  have e: "equip (alice\<lparr>inventory := [knife]\<rparr>) 0 = Some armed_alice"
    by (simp add: equip_def array_get_def knife_def slot_of_subtype_def armed_alice_def Let_def)
  have g: "getEquippedSync armed_alice ''melee'' = Some (knife\<lparr>equipped_slot := Some ''melee''\<rparr>)"
    by (simp add: getEquippedSync_def armed_alice_def)
  have i: "inventory armed_alice = [knife\<lparr>equipped_slot := Some ''melee''\<rparr>]"
    by (simp add: armed_alice_def)
  have k: "slot knife = None" "\<not> stackable (istats knife)"
    by (simp_all add: knife_def)
  have d: "dropItem itemManager_knife 0 armed_alice (ByNumber 0) 1 f =
       (Returned (Some (knife\<lparr>equipped_slot := Some ''melee''\<rparr>)),
        armed_alice\<lparr>inventory := []\<rparr>)" for f
    by (simp add: dropItem_def i k array_get_def spliced_def splice1_def splice_start_def Let_def)
  show ?thesis
    using e g d by simp
qed

subsection \<open>Movement\<close>

text \<open>
  What does hold for a move to a cell that the map rejects: no location changes, no
  room message is sent, the registry is the same.
\<close>

lemma move_invalid_frame:
  assumes r: "getSync w uid = Some r"
    and bad: "isValidLocation (destination (objects w r) m) = None"
  shows "location (objects (move pc isValidLocation w uid m) x) = location (objects w x)
       \<and> filter is_room_event (events (move pc isValidLocation w uid m))
           = filter is_room_event (events w)
       \<and> characters (move pc isValidLocation w uid m) = characters w"
proof -
  obtain c1 cd where a: "add pc (objects w r) ''move'' None False = (c1, cd)"
    by (cases "add pc (objects w r) ''move'' None False") auto
  then have l: "location c1 = location (objects w r)"
    by (auto simp: add_def Let_def split: if_splits)
  show ?thesis
    using r bad a l
    by (simp add: move_def Let_def emit_def is_room_event_def destination_def)
qed

text \<open>
  C4. A rejected move is not free of mutation. Alice stands at (0, 0) of a 10 by 10 map
  with an empty cooldown list and asks for a step west, to x = -1. The cooldown is
  added before the cell is checked, so her list then holds a "move" cooldown that was
  never started, \<open>ticksLeft\<close> answers 2, and her next move, a step east to an existing
  cell, is dropped by the cooldown check.
\<close>

theorem move_out_of_bounds_adds_cooldown:
  "getSync world0 ''u1'' = Some alice_ref
   \<and> isValidLocation_10x10 (destination (objects world0 alice_ref) step_west) = None
   \<and> cooldowns (objects world0 alice_ref) = []
   \<and> cooldowns (objects (move playerCooldowns_default isValidLocation_10x10 world0 ''u1''
        step_west) alice_ref)
       = [\<lparr>action = ''move'', ticks = 2, started = False, remove = False\<rparr>]
   \<and> ticksLeft (objects (move playerCooldowns_default isValidLocation_10x10 world0 ''u1''
        step_west) alice_ref) ''move'' = 2
   \<and> isValidLocation_10x10 (destination (objects world0 alice_ref) step_east) \<noteq> None
   \<and> move playerCooldowns_default isValidLocation_10x10
        (move playerCooldowns_default isValidLocation_10x10 world0 ''u1'' step_west) ''u1''
        step_east
       = move playerCooldowns_default isValidLocation_10x10 world0 ''u1'' step_west"
proof -
  have g: "getSync world0 ''u1'' = Some alice_ref"
    by (simp add: getSync_def world0_def lobby_def alice_def new_Character_def)
  have c: "objects world0 alice_ref = alice"
    by (simp add: world0_def lobby_def)
  have al: "targetedBy alice = []" "hidden alice = False" "cooldowns alice = []"
    "location alice = spawn"
    by (simp_all add: alice_def new_Character_def)
  have west: "isValidLocation_10x10 (destination alice step_west) = None"
    by (simp add: destination_def step_west_def al spawn_def isValidLocation_10x10_def)
  have east: "isValidLocation_10x10 (destination alice step_east) \<noteq> None"
    by (simp add: destination_def step_east_def al spawn_def isValidLocation_10x10_def)
  define stuck where "stuck = alice\<lparr>cooldowns := [new_Cooldown ''move'' 2 False]\<rparr>"
  have a: "add playerCooldowns_default alice ''move'' None False
            = (stuck, Some (new_Cooldown ''move'' 2 False))"
    by (simp add: add_def playerCooldowns_default_def al stuck_def Let_def)
  have t0: "ticksLeft alice ''move'' = 0"
    by (simp add: ticksLeft_def al)
  have m1: "move playerCooldowns_default isValidLocation_10x10 world0 ''u1'' step_west
             = world0\<lparr>objects := (objects world0)(alice_ref := stuck)\<rparr>"
    by (simp add: move_def g c al t0 a step_west_def spawn_def isValidLocation_10x10_def
          Let_def)
  have t1: "ticksLeft stuck ''move'' = 2"
    by (simp add: ticksLeft_def stuck_def new_Cooldown_def)
  have g1: "getSync (world0\<lparr>objects := (objects world0)(alice_ref := stuck)\<rparr>) ''u1'' = Some alice_ref"
    by (simp add: getSync_def world0_def stuck_def alice_def new_Character_def)
  have s: "targetedBy stuck = []" "hidden stuck = False"
    by (simp_all add: stuck_def al)
  have m2: "move playerCooldowns_default isValidLocation_10x10
              (world0\<lparr>objects := (objects world0)(alice_ref := stuck)\<rparr>) ''u1'' step_east
             = world0\<lparr>objects := (objects world0)(alice_ref := stuck)\<rparr>"
    by (simp add: move_def g1 s t1)
  show ?thesis
    using g west east al t1 by (simp add: m1 m2 c) (simp add: stuck_def new_Cooldown_def)
qed

subsection \<open>Validation and dispatch\<close>

text \<open>
  The \<open>break\<close>: an empty slot whose rules do not hold \<open>required\<close> resolves the promise
  with the remaining tokens as they are.
\<close>

lemma validate_slots_break:
  assumes "stripEncapsulation tok = []" and "rules p \<noteq> []"
    and "''required'' \<notin> set (split_on (CHR ''|'') (toLowerCase (rules p)))"
  shows "validate_slots ext player (p # ps) seen (tok # rest) = Resolved (seen @ Str [] # map Str rest)"
  using assms by simp

text \<open>
  C7. For the command \<open>/walk\<close> with the slots \<open>label\<close> (\<open>minlen:2\<close>) and \<open>dir\<close>
  (\<open>direction\<close>): the tokens \<open>ab xx\<close> are rejected by the rule chain of the second slot,
  but with an empty quoted first token the chain of the second slot is not evaluated,
  validation resolves, and the handler is called with \<open>xx\<close> as direction.
\<close>

theorem validate_empty_slot_ends_validation:
  "validate ext_unused None [''ab'', ''xx''] (Some walk_params)
     = Rejected ''dir does not appear to be a valid direction.''
   \<and> validate ext_unused None [[dquote, dquote], ''xx''] (Some walk_params)
     = Resolved [Str [], Str ''xx'']
   \<and> onDispatch ext_unused commands0 world0 ''u1''
        \<lparr>action_type = GAME_COMMAND, payload = Some (''/walk '' @ [dquote, dquote] @ '' xx'')\<rparr>
     = [Method ''/walk'' (Some alice_ref) [Str [], Str ''xx''] ''Walk'']"
  by code_simp

text \<open>
  A dispatch for a registered command from a connection without character is handled
  like any other, with \<open>null\<close> as character.
\<close>

lemma trim_nonempty: "trim pl \<noteq> [] \<Longrightarrow> pl \<noteq> []"
  by (auto simp: trim_def)

lemma onDispatch_missing_character:
  assumes "action_type act = GAME_COMMAND" and "payload act = Some pl" and "trim pl \<noteq> []"
    and "parseParameters (trim pl) = first # params"
    and "commands (toLowerCase first) = Some c"
    and "getSync w uid = None"
  shows "onDispatch ext commands w uid act =
     (case validate ext None params (cmd_params c) of
        Resolved validParams \<Rightarrow> [Method (toLowerCase first) None validParams (cmd_description c)]
      | Rejected e \<Rightarrow> [Event (EventToSocket uid ''error'' e)]
      | Pending \<Rightarrow> [])"
  using assms trim_nonempty [of pl] by (simp add: onDispatch_def Let_def)

text \<open>
  C8. The connection of user \<open>u9\<close> has no character in the registry. Its \<open>/help\<close> is
  not dropped: the handler is called, with \<open>null\<close> as character. Its \<open>/walk ab xx\<close> is
  not dropped either: the rejection of the validator is sent back to the connection.
\<close>

theorem onDispatch_runs_without_character:
  "getSync empty_world ''u9'' = None
   \<and> onDispatch ext_unused commands0 empty_world ''u9''
        \<lparr>action_type = GAME_COMMAND, payload = Some ''/help''\<rparr>
     = [Method ''/help'' None [] ''Help'']
   \<and> onDispatch ext_unused commands0 empty_world ''u9''
        \<lparr>action_type = GAME_COMMAND, payload = Some ''/walk ab xx''\<rparr>
     = [Event (EventToSocket ''u9'' ''error'' ''dir does not appear to be a valid direction.'')]"
  by code_simp

end
